theory Spec2Isabelle
  imports Complex_Main
begin

unbundle bit_operations_syntax

section \<open>Common data model\<close>

text \<open>
  The Python exceptions that the modelled functions can raise. A function that can raise
  returns \<open>error + 'a\<close>, with \<open>Inl\<close> for the exception.
\<close>

datatype error = ValueError | TypeError | AssertionError | ZeroDivisionError | OverflowError
  | IndexError

text \<open>
  A three-dimensional numpy array of reals: its shape and its entries as nested lists
  (outermost axis first). The shape is kept explicitly, as numpy does, because the
  nesting of an array with an empty axis does not show the lengths of the inner axes.
  Arithmetic is exact: a float is modelled as a real number.
\<close>

record ndarray3 =
  shape3 :: "nat \<times> nat \<times> nat"
  vals3 :: "real list list list"

definition wf3 :: "ndarray3 \<Rightarrow> bool" where
  "wf3 a = (case shape3 a of (n0, n1, n2) \<Rightarrow>
     length (vals3 a) = n0 \<and>
     list_all (\<lambda>m. length m = n1 \<and> list_all (\<lambda>r. length r = n2) m) (vals3 a))"

text \<open>
  \<open>int(math.ceil(math.log(n, 2)))\<close> for \<open>n \<ge> 1\<close>, in exact arithmetic: the least
  \<open>k\<close> with \<open>n \<le> 2 ^ k\<close>.
\<close>

fun ceil_log2 :: "nat \<Rightarrow> nat" where
  "ceil_log2 n = (if n \<le> 1 then 0 else Suc (ceil_log2 ((n + 1) div 2)))"

declare ceil_log2.simps [simp del]

text \<open>
  A loop that raises at the first failing element, and the nested lists that are
  \<open>n \<times> m\<close> arrays.
\<close>

fun mapM_err :: "('a \<Rightarrow> error + 'b) \<Rightarrow> 'a list \<Rightarrow> error + 'b list" where
  "mapM_err f [] = Inr []"
| "mapM_err f (x # xs) =
     (case f x of Inl e \<Rightarrow> Inl e
      | Inr y \<Rightarrow> (case mapM_err f xs of Inl e \<Rightarrow> Inl e | Inr ys \<Rightarrow> Inr (y # ys)))"


section \<open>Stockwell transform: \<open>_stockwell.py\<close>\<close>

text \<open>
  \<open>_is_power_of_two = lambda n: not (n > 0 and ((n & (n - 1))))\<close>: true of the powers
  of two and of every \<open>n \<le> 0\<close>.
\<close>

definition is_power_of_two :: "int \<Rightarrow> bool" where
  "is_power_of_two n = (\<not> (n > 0 \<and> (n AND (n - 1)) \<noteq> 0))"

text \<open>
  \<open>_check_input_st(x_in, n_fft)\<close>. The \<open>return\<close> statement of the source is inside
  the \<open>if n_times < n_fft\<close> block, so the function returns the triple only when it pads;
  otherwise control falls off the end and Python returns \<open>None\<close>, which is \<open>Inr None\<close>
  here. \<open>math.log(0, 2)\<close> raises ValueError (math domain error). The next power of two
  is \<open>2 ^ ceil_log2 n_times\<close>, the exact value of \<open>2 ** int(math.ceil(math.log(n_times, 2)))\<close>
  (for 256 samples the floating-point logarithm is exactly 8.0 too).
\<close>

definition pad_last :: "ndarray3 \<Rightarrow> nat \<Rightarrow> ndarray3" where
  "pad_last x zero_pad = (case shape3 x of (n0, n1, n2) \<Rightarrow>
     \<lparr>shape3 = (n0, n1, n2 + zero_pad),
      vals3 = map (map (\<lambda>r. r @ replicate zero_pad 0)) (vals3 x)\<rparr>)"

definition check_input_st ::
  "ndarray3 \<Rightarrow> int option \<Rightarrow> error + (ndarray3 \<times> int \<times> int) option" where
  "check_input_st x_in n_fft =
     (let n_times = snd (snd (shape3 x_in));
          pad = (\<lambda>n_fft'.
            if int n_times < n_fft'
            then (let zero_pad = n_fft' - int n_times
                  in Inr (Some (pad_last x_in (nat zero_pad), n_fft', zero_pad)))
            else Inr None)
      in if n_fft = None \<or> (\<not> is_power_of_two (the n_fft) \<and> int n_times > the n_fft)
         then (if n_times = 0 then Inl ValueError
               else pad (2 ^ ceil_log2 n_times))
         else if the n_fft < int n_times then Inl ValueError
         else pad (the n_fft))"

text \<open>
  \<open>scipy.fftpack.fft\<close> and \<open>ifft\<close> of one row, from their definition (the discrete
  Fourier transform), and \<open>fftpack.fftfreq(n, d)\<close>:
  \<open>[0, 1, ..., (n-1)//2, -(n//2), ..., -1] / (d * n)\<close>.
\<close>

definition fft :: "complex list \<Rightarrow> complex list" where
  "fft x = (let n = length x in
     map (\<lambda>k. \<Sum>j\<leftarrow>[0..<n]. x ! j * cis (- 2 * pi * real k * real j / real n)) [0..<n])"

definition ifft :: "complex list \<Rightarrow> complex list" where
  "ifft x = (let n = length x in
     map (\<lambda>k. (\<Sum>j\<leftarrow>[0..<n]. x ! j * cis (2 * pi * real k * real j / real n)) / of_nat n)
       [0..<n])"

definition fftfreq :: "nat \<Rightarrow> real \<Rightarrow> real list" where
  "fftfreq n d =
     map (\<lambda>k. real_of_int k / (real n * d))
       (map int [0..<(n - 1) div 2 + 1] @ map (\<lambda>i. int i - int (n div 2)) [0..<n div 2])"

text \<open>\<open>xs[::decim]\<close> for \<open>decim \<ge> 1\<close>, and \<open>np.argmin\<close> (the first minimum wins).\<close>

definition decimate :: "nat \<Rightarrow> 'a list \<Rightarrow> 'a list" where
  "decimate decim xs = map (\<lambda>i. xs ! (i * decim)) [0..<(length xs + decim - 1) div decim]"

definition argmin :: "real list \<Rightarrow> nat" where
  "argmin xs = length (takeWhile (\<lambda>x. x \<noteq> Min (set xs)) xs)"

text \<open>\<open>_precompute_st_windows(n_samp, start_f, stop_f, sfreq, width)\<close>.\<close>

definition st_window :: "real list \<Rightarrow> real \<Rightarrow> nat \<Rightarrow> complex list" where
  "st_window tw k f =
     (let window = (if f = 0 then map (\<lambda>_. 1) tw
                    else map (\<lambda>t. (real f / (sqrt (2 * pi) * k)) *
                                  exp (- 0.5 * (1 / k\<^sup>2) * (real f)\<^sup>2 * t\<^sup>2)) tw);
          window' = map (\<lambda>w. w / sum_list window) window
      in fft (map complex_of_real window'))"

definition precompute_st_windows ::
  "nat \<Rightarrow> nat \<Rightarrow> nat \<Rightarrow> real \<Rightarrow> real \<Rightarrow> complex list list" where
  "precompute_st_windows n_samp start_f stop_f sfreq width =
     (let tw0 = map (\<lambda>v. v / real n_samp) (fftfreq n_samp (1 / sfreq));
          tw = take 1 tw0 @ rev (drop 1 tw0)
      in map (st_window tw width) [start_f..<stop_f])"

text \<open>
  \<open>_st_power_itc(x, start_f, compute_itc, zero_pad, decim, W)\<close> for the trials \<open>x\<close> of one
  channel (each of \<open>n_samp\<close> samples): per frequency row, the mean over trials of the
  squared magnitudes and, if asked for, the magnitude of the mean of the unit-normalised
  coefficients. \<open>ST[:, :-zero_pad:decim]\<close> drops the padded tail, then decimates.
\<close>

definition col_mean :: "nat \<Rightarrow> 'a::real_normed_field list list \<Rightarrow> 'a list" where
  "col_mean n rows = map (\<lambda>j. (\<Sum>r\<leftarrow>rows. r ! j) / of_nat (length rows)) [0..<n]"

definition st_power_itc ::
  "nat \<Rightarrow> real list list \<Rightarrow> nat \<Rightarrow> bool \<Rightarrow> nat \<Rightarrow> nat \<Rightarrow> complex list list \<Rightarrow>
   real list list \<times> real list list option" where
  "st_power_itc n_samp x start_f compute_itc zero_pad decim W =
     (let n_out0 = n_samp - zero_pad;
          n_out = n_out0 div decim + (if n_out0 mod decim \<noteq> 0 then 1 else 0);
          XX = map (\<lambda>r. let X = fft (map complex_of_real r) in X @ X) x;
          TFR = (\<lambda>i_f. map (\<lambda>r.
                   decimate decim (take (n_samp - zero_pad)
                     (ifft (map2 (*) (take n_samp (drop (start_f + i_f) r)) (W ! i_f))))) XX);
          psd = map (\<lambda>i_f. col_mean n_out (map (map (\<lambda>z. (cmod z)\<^sup>2)) (TFR i_f)))
                  [0..<length W];
          itc = map (\<lambda>i_f. map cmod
                   (col_mean n_out (map (map (\<lambda>z. z / of_real (cmod z))) (TFR i_f))))
                  [0..<length W]
      in (psd, if compute_itc then Some itc else None))"

text \<open>
  \<open>_induced_power_stockwell(data, sfreq, fmin, fmax, n_fft, width, decim, return_itc,
  n_jobs)\<close>. The parallel map over channels is the external dispatcher; it is modelled as
  the sequential map, so \<open>n_jobs\<close> has no argument here. Unpacking the result of
  \<open>_check_input_st\<close> raises TypeError when that result is \<open>None\<close>. The divisions
  \<open>data.shape[2] // decim\<close> and \<open>1. / sfreq\<close> raise ZeroDivisionError for a zero divisor,
  an empty selection \<open>freqs[freqs > 0][0]\<close> raises IndexError, and \<open>np.empty\<close> raises
  ValueError for a negative number of frequencies. The number of output samples \<open>n_out\<close>
  computed here is the one that \<open>_st_power_itc\<close> computes again, so the per-channel
  arrays fit their slots.
\<close>

definition induced_power_stockwell ::
  "ndarray3 \<Rightarrow> real \<Rightarrow> real option \<Rightarrow> real option \<Rightarrow> int option \<Rightarrow> real \<Rightarrow> nat \<Rightarrow> bool \<Rightarrow>
   error + (real list list list \<times> real list list list option \<times> real list)" where
  "induced_power_stockwell data sfreq fmin fmax n_fft width decim return_itc =
     (case shape3 data of (n_epochs, n_channels, n_times) \<Rightarrow>
      if decim = 0 then Inl ZeroDivisionError
      else case check_input_st data n_fft of
        Inl e \<Rightarrow> Inl e
      | Inr None \<Rightarrow> Inl TypeError
      | Inr (Some (data', n_fft', zero_pad)) \<Rightarrow>
          if sfreq = 0 then Inl ZeroDivisionError
          else
            let freqs = fftfreq (nat n_fft') (1 / sfreq) in
            if fmin = None \<and> filter (\<lambda>f. f > 0) freqs = [] then Inl IndexError
            else
              let fmin' = (case fmin of None \<Rightarrow> hd (filter (\<lambda>f. f > 0) freqs) | Some v \<Rightarrow> v);
                  fmax' = (case fmax of None \<Rightarrow> Max (set freqs) | Some v \<Rightarrow> v);
                  start_f = argmin (map (\<lambda>f. abs (f - fmin')) freqs);
                  stop_f = argmin (map (\<lambda>f. abs (f - fmax')) freqs);
                  n_samp = snd (snd (shape3 data'));
                  W = precompute_st_windows n_samp start_f stop_f sfreq width
              in if stop_f < start_f then Inl ValueError
                 else
                   let tfrs = map (\<lambda>c. st_power_itc n_samp (map (\<lambda>e. e ! c) (vals3 data'))
                                          start_f return_itc (nat zero_pad) decim W)
                                [0..<n_channels]
                   in Inr (map fst tfrs,
                           if return_itc then Some (map (\<lambda>t. the (snd t)) tfrs) else None,
                           take (stop_f - start_f) (drop start_f freqs)))"

text \<open>
  The scenario of the specification: two trials, one channel, 256 samples of a pure 10 Hz
  sinusoid sampled at 200 Hz.
\<close>

definition sinusoid_batch :: ndarray3 where
  "sinusoid_batch =
     \<lparr>shape3 = (2, 1, 256),
      vals3 = replicate 2 [map (\<lambda>i. sin (2 * pi * 10 * (real i / 200))) [0..<256]]\<rparr>"

section \<open>Wavelet builders: \<open>tfr.py\<close>\<close>

text \<open>
  Floats are real numbers and complex floats are complex numbers here. The source is run
  under Python 3 with numpy. Where the source divides a numpy number by zero, numpy goes
  on with \<open>inf\<close> or \<open>nan\<close>; the builders do so only for the stop of \<open>np.arange\<close>, which
  then raises ValueError, and for the final normalisation, which fills the kernel with
  \<open>nan\<close> (the theorems below take kernels of non-zero norm). The sample rate is a Python
  float, so \<open>1.0 / sfreq\<close> raises ZeroDivisionError for a zero rate. Array lengths are
  unbounded (no memory limit).

  \<open>np.arange(0., stop, step)\<close> has \<open>ceil(stop / step)\<close> entries \<open>i * step\<close> (none if that
  number is not positive). \<open>linalg.norm(W.ravel())\<close> is the Euclidean norm.
\<close>

definition arange0 :: "real \<Rightarrow> real \<Rightarrow> real list" where
  "arange0 stop step = map (\<lambda>i. real i * step) [0..<nat \<lceil>stop / step\<rceil>]"

definition l2norm :: "complex list \<Rightarrow> real" where
  "l2norm W = sqrt (\<Sum>w\<leftarrow>W. (cmod w)\<^sup>2)"

text \<open>The last step of both builders: \<open>W /= sqrt(0.5) * linalg.norm(W.ravel())\<close>.\<close>

definition normalise :: "complex list \<Rightarrow> complex list" where
  "normalise W = map (\<lambda>w. w / of_real (sqrt 0.5 * l2norm W)) W"

text \<open>
  The body of the loop of \<open>morlet(sfreq, freqs, n_cycles, sigma, zero_mean)\<close> for one
  frequency \<open>f\<close>: \<open>morlet_raw\<close> is the kernel before it is normalised, where the divisors
  are not zero. \<open>sigma_t\<close> is \<open>inf\<close> or \<open>nan\<close> for a zero frequency (a zero \<open>sigma\<close>, if
  one is given), and \<open>np.arange\<close> raises ValueError then.
\<close>

definition morlet_raw :: "real \<Rightarrow> real \<Rightarrow> real \<Rightarrow> real option \<Rightarrow> bool \<Rightarrow> complex list" where
  "morlet_raw sfreq f this_n_cycles sigma zero_mean =
     (let sigma_t = (case sigma of None \<Rightarrow> this_n_cycles / (2 * pi * f)
                                 | Some sg \<Rightarrow> this_n_cycles / (2 * pi * sg));
          t0 = arange0 (5 * sigma_t) (1 / sfreq);
          t = map uminus (rev t0) @ drop 1 t0;
          oscillation = map (\<lambda>u. cis (2 * pi * f * u)) t;
          gaussian_enveloppe = map (\<lambda>u. exp (- u\<^sup>2 / (2 * sigma_t\<^sup>2))) t;
          real_offset = exp (- 2 * (pi * f * sigma_t)\<^sup>2);
          oscillation' = (if zero_mean then map (\<lambda>z. z - of_real real_offset) oscillation
                          else oscillation)
      in map2 (\<lambda>z g. z * of_real g) oscillation' gaussian_enveloppe)"

definition morlet_kernel ::
  "real \<Rightarrow> real \<Rightarrow> real \<Rightarrow> real option \<Rightarrow> bool \<Rightarrow> error + complex list" where
  "morlet_kernel sfreq f this_n_cycles sigma zero_mean =
     (if sfreq = 0 then Inl ZeroDivisionError
      else if (case sigma of None \<Rightarrow> f = 0 | Some sg \<Rightarrow> sg = 0) then Inl ValueError
      else Inr (normalise (morlet_raw sfreq f this_n_cycles sigma zero_mean)))"

text \<open>
  \<open>n_cycles\<close> is the list that \<open>np.atleast_1d\<close> returns (a scalar is a list of one
  entry). The deprecated alias \<open>Fs\<close> of \<open>sfreq\<close> is left out.
\<close>

definition n_cycles_at :: "real list \<Rightarrow> nat \<Rightarrow> real" where
  "n_cycles_at n_cycles k = (if length n_cycles \<noteq> 1 then n_cycles ! k else n_cycles ! 0)"

definition morlet ::
  "real \<Rightarrow> real list \<Rightarrow> real list \<Rightarrow> real option \<Rightarrow> bool \<Rightarrow> error + complex list list" where
  "morlet sfreq freqs n_cycles sigma zero_mean =
     (if length n_cycles \<noteq> 1 \<and> length n_cycles \<noteq> length freqs then Inl ValueError
      else mapM_err (\<lambda>k. morlet_kernel sfreq (freqs ! k) (n_cycles_at n_cycles k)
                            sigma zero_mean)
             [0..<length freqs])"

text \<open>
  \<open>_dpss_wavelet(sfreq, freqs, n_cycles, time_bandwidth, zero_mean)\<close>. The taper
  generator \<open>dpss_windows\<close> is not part of these sources; it is the parameter \<open>dpss\<close>,
  where \<open>dpss N half_nbw Kmax\<close> is the array of tapers (one row per taper) that
  \<open>dpss_windows(N, half_nbw, Kmax)\<close> returns. \<open>dpss_shape_ok\<close> says that it returns
  \<open>Kmax\<close> tapers of \<open>N\<close> entries. \<open>tapers[m]\<close> raises IndexError for a missing row, and
  the product \<open>oscillation * tapers[m]\<close> follows numpy's broadcasting: equal lengths, or
  one operand of one entry, else ValueError. \<open>t_win\<close> is \<open>inf\<close> or \<open>nan\<close> for a zero
  frequency, and \<open>np.arange\<close> raises ValueError then.
\<close>

type_synonym dpss_windows = "nat \<Rightarrow> real \<Rightarrow> nat \<Rightarrow> real list list"


definition bcast_mul :: "complex list \<Rightarrow> real list \<Rightarrow> error + complex list" where
  "bcast_mul a b =
     (if length a = length b then Inr (map2 (\<lambda>z g. z * of_real g) a b)
      else if length a = 1 then Inr (map (\<lambda>g. a ! 0 * of_real g) b)
      else if length b = 1 then Inr (map (\<lambda>z. z * of_real (b ! 0)) a)
      else Inl ValueError)"

definition dpss_raw ::
  "dpss_windows \<Rightarrow> real \<Rightarrow> real \<Rightarrow> real \<Rightarrow> real \<Rightarrow> nat \<Rightarrow> nat \<Rightarrow> bool \<Rightarrow>
   error + complex list" where
  "dpss_raw dpss sfreq f this_n_cycles time_bandwidth n_taps m zero_mean =
     (if sfreq = 0 then Inl ZeroDivisionError
      else if f = 0 then Inl ValueError
      else
        let t_win = this_n_cycles / f;
            t = arange0 t_win (1 / sfreq);
            oscillation = map (\<lambda>u. cis (2 * pi * f * (u - t_win / 2))) t;
            tapers = dpss (length t) (time_bandwidth / 2) n_taps
        in if length tapers \<le> m then Inl IndexError
           else case bcast_mul oscillation (tapers ! m) of
                  Inl e \<Rightarrow> Inl e
                | Inr Wk \<Rightarrow>
                    Inr (if zero_mean then map (\<lambda>z. z - sum_list Wk / of_nat (length Wk)) Wk
                         else Wk))"

definition dpss_kernel ::
  "dpss_windows \<Rightarrow> real \<Rightarrow> real \<Rightarrow> real \<Rightarrow> real \<Rightarrow> nat \<Rightarrow> nat \<Rightarrow> bool \<Rightarrow>
   error + complex list" where
  "dpss_kernel dpss sfreq f this_n_cycles time_bandwidth n_taps m zero_mean =
     (case dpss_raw dpss sfreq f this_n_cycles time_bandwidth n_taps m zero_mean of
        Inl e \<Rightarrow> Inl e
      | Inr Wk \<Rightarrow> Inr (normalise Wk))"

definition dpss_wavelet ::
  "dpss_windows \<Rightarrow> real \<Rightarrow> real list \<Rightarrow> real list \<Rightarrow> real \<Rightarrow> bool \<Rightarrow>
   error + complex list list list" where
  "dpss_wavelet dpss sfreq freqs n_cycles time_bandwidth zero_mean =
     (if time_bandwidth < 2 then Inl ValueError
      else let n_taps = nat \<lfloor>time_bandwidth - 1\<rfloor>
           in if length n_cycles \<noteq> 1 \<and> length n_cycles \<noteq> length freqs then Inl ValueError
              else mapM_err (\<lambda>m. mapM_err (\<lambda>k. dpss_kernel dpss sfreq (freqs ! k)
                                                 (n_cycles_at n_cycles k) time_bandwidth n_taps
                                                 m zero_mean)
                                       [0..<length freqs])
                     [0..<n_taps])"

section \<open>Convolution engines: \<open>tfr.py\<close>\<close>

text \<open>
  A two-dimensional array of reals (trial, time) with its shape, and the convolution
  modes \<open>'full'\<close>, \<open>'same'\<close> and \<open>'valid'\<close>.
\<close>

record ndarray2 =
  shape2 :: "nat \<times> nat"
  vals2 :: "real list list"


datatype conv_mode = Full | Same | Valid

text \<open>
  A generator: the arrays it yields before it ends, and the exception that ends it, if
  any.
\<close>

fun gen_trials :: "('a \<Rightarrow> error + 'b) \<Rightarrow> 'a list \<Rightarrow> 'b list \<times> error option" where
  "gen_trials f [] = ([], None)"
| "gen_trials f (x # xs) =
     (case f x of Inl e \<Rightarrow> ([], Some e)
      | Inr y \<Rightarrow> (case gen_trials f xs of (ys, r) \<Rightarrow> (y # ys, r)))"

text \<open>
  Python slices \<open>xs[start:stop]\<close> with integer bounds (a negative bound counts from the
  end, every bound is clipped), and \<open>_centered(arr, newsize)\<close> on one axis.
\<close>

definition py_index :: "nat \<Rightarrow> int \<Rightarrow> nat" where
  "py_index n i = (if i < 0 then nat (max 0 (int n + i)) else min n (nat i))"

definition py_slice :: "int \<Rightarrow> int \<Rightarrow> 'a list \<Rightarrow> 'a list" where
  "py_slice start stop xs =
     (let s = py_index (length xs) start; e = py_index (length xs) stop
      in take (e - s) (drop s xs))"

definition centered :: "'a list \<Rightarrow> nat \<Rightarrow> 'a list" where
  "centered arr newsize =
     (let startind = (int (length arr) - int newsize) div 2;
          endind = startind + int newsize
      in py_slice startind endind arr)"

text \<open>
  Assignment of a one-dimensional array to a row of \<open>n\<close> entries (\<open>tfr[i, :] = src\<close>):
  numpy accepts a source of \<open>n\<close> entries, broadcasts a source of one entry, and raises
  ValueError otherwise.
\<close>

definition assign_row :: "nat \<Rightarrow> complex list \<Rightarrow> error + complex list" where
  "assign_row n src =
     (if length src = n then Inr src
      else if length src = 1 then Inr (replicate n (src ! 0))
      else Inl ValueError)"

text \<open>\<open>fftn(x, [n])\<close>: the transform of \<open>x\<close> cut or zero-padded to \<open>n\<close> entries.\<close>

definition fftn :: "complex list \<Rightarrow> nat \<Rightarrow> complex list" where
  "fftn x n = fft (take n x @ replicate (n - length x) 0)"

text \<open>
  \<open>_cwt_fft(X, Ws, mode)\<close>. Everything before the loop over the trials runs when the
  generator is started: \<open>max\<close> of an empty bank raises ValueError, \<open>int(np.ceil(np.log2(size)))\<close>
  raises OverflowError for \<open>size = 0\<close> and ValueError for \<open>size < 0\<close>, and a kernel
  longer than the signal raises ValueError. In the loop, the row assigned for a kernel is
  the centre crop of \<open>n_times\<close> entries in mode \<open>'full'\<close> too, where the row has
  \<open>fsize\<close> entries. In mode \<open>'valid'\<close> the offset \<open>(n_times - sz) / 2\<close> is a float under
  Python 3, and the assignment to \<open>tfr[i, offset:(offset + sz)]\<close> raises TypeError (slice
  indices must be integers), once its right-hand side is computed.
\<close>

definition cwt_fft_kernel ::
  "nat \<Rightarrow> nat \<Rightarrow> conv_mode \<Rightarrow> complex list \<Rightarrow> complex list \<Rightarrow> error + complex list" where
  "cwt_fft_kernel n_times fsize mode fft_x W =
     (let ret = py_slice 0 (int n_times + int (length W) - 1)
                  (ifft (map2 (*) fft_x (fftn W fsize)))
      in case mode of
           Valid \<Rightarrow> Inl TypeError
         | Full \<Rightarrow> assign_row fsize (centered ret n_times)
         | Same \<Rightarrow> assign_row n_times (centered ret n_times))"

definition cwt_fft_trial ::
  "nat \<Rightarrow> nat \<Rightarrow> complex list list \<Rightarrow> conv_mode \<Rightarrow> real list \<Rightarrow> error + complex list list" where
  "cwt_fft_trial n_times fsize Ws mode x =
     (let fft_x = fftn (map complex_of_real x) fsize
      in mapM_err (cwt_fft_kernel n_times fsize mode fft_x) Ws)"

definition cwt_fft ::
  "ndarray2 \<Rightarrow> complex list list \<Rightarrow> conv_mode \<Rightarrow> complex list list list \<times> error option" where
  "cwt_fft X Ws mode =
     (case shape2 X of (n_signals, n_times) \<Rightarrow>
        if Ws = [] then ([], Some ValueError)
        else
          let Ws_max_size = Max (set (map length Ws));
              size = int n_times + int Ws_max_size - 1
          in if size = 0 then ([], Some OverflowError)
             else if size < 0 then ([], Some ValueError)
             else
               let fsize = 2 ^ ceil_log2 (nat size)
               in if list_ex (\<lambda>W. length W > n_times) Ws then ([], Some ValueError)
                  else gen_trials (cwt_fft_trial n_times fsize Ws mode) (vals2 X))"





section \<open>Reduction and orchestration: \<open>tfr.py\<close>\<close>











section \<open>Result container: \<open>AverageTFR\<close>\<close>

text \<open>
  The data array of a container is an object that \<open>+=\<close> and \<open>-=\<close> update in place, so
  the arrays live in a store and a container holds the address of its array.
  \<open>deepcopy\<close> allocates a new array. The measurement info is of an external type.
  The fields are the attributes \<open>info\<close>, \<open>data\<close>, \<open>times\<close>, \<open>freqs\<close>, \<open>nave\<close>,
  \<open>comment\<close> and \<open>method\<close>.
\<close>

type_synonym store = "ndarray3 list"

record 'i AverageTFR =
  tfr_info :: 'i
  tfr_data :: nat
  tfr_times :: "real list"
  tfr_freqs :: "real list"
  tfr_nave :: nat
  tfr_comment :: "string option"
  tfr_method :: "string option"

text \<open>
  \<open>np.all(a == b)\<close> on two axes: numpy compares entry by entry, broadcasts an axis of one
  entry against the other axis, and gives \<open>False\<close> for axes whose lengths do not fit.
\<close>

definition np_all_eq :: "real list \<Rightarrow> real list \<Rightarrow> bool" where
  "np_all_eq a b =
     (if length a = length b then a = b
      else if length a = 1 then list_all (\<lambda>y. a ! 0 = y) b
      else if length b = 1 then list_all (\<lambda>x. x = b ! 0) a
      else False)"

definition check_compat :: "'i AverageTFR \<Rightarrow> 'i AverageTFR \<Rightarrow> error + unit" where
  "check_compat self tfr =
     (if \<not> np_all_eq (tfr_times tfr) (tfr_times self) then Inl AssertionError
      else if \<not> np_all_eq (tfr_freqs tfr) (tfr_freqs self) then Inl AssertionError
      else Inr ())"

text \<open>
  \<open>a += b\<close> and \<open>a -= b\<close> on arrays: \<open>b\<close> is broadcast to the shape of \<open>a\<close> (an axis of
  \<open>b\<close> must have the length of the axis of \<open>a\<close>, or length 1), else numpy raises
  ValueError.
\<close>

definition inplace3 :: "(real \<Rightarrow> real \<Rightarrow> real) \<Rightarrow> ndarray3 \<Rightarrow> ndarray3 \<Rightarrow> error + ndarray3" where
  "inplace3 f a b =
     (case shape3 a of (c, n, t) \<Rightarrow> case shape3 b of (c', n', t') \<Rightarrow>
        if (c' = c \<or> c' = 1) \<and> (n' = n \<or> n' = 1) \<and> (t' = t \<or> t' = 1)
        then Inr \<lparr>shape3 = (c, n, t),
                  vals3 = map (\<lambda>i. map (\<lambda>j. map (\<lambda>k.
                            f (vals3 a ! i ! j ! k)
                              (vals3 b ! (if c' = 1 then 0 else i) ! (if n' = 1 then 0 else j)
                                 ! (if t' = 1 then 0 else k)))
                          [0..<t]) [0..<n]) [0..<c]\<rparr>
        else Inl ValueError)"

definition copy :: "store \<Rightarrow> 'i AverageTFR \<Rightarrow> 'i AverageTFR \<times> store" where
  "copy st self = (self\<lparr>tfr_data := length st\<rparr>, st @ [st ! tfr_data self])"

definition inplace_op ::
  "(real \<Rightarrow> real \<Rightarrow> real) \<Rightarrow> store \<Rightarrow> 'i AverageTFR \<Rightarrow> 'i AverageTFR \<Rightarrow>
   error + ('i AverageTFR \<times> store)" where
  "inplace_op f st self tfr =
     (case check_compat self tfr of
        Inl e \<Rightarrow> Inl e
      | Inr _ \<Rightarrow> (case inplace3 f (st ! tfr_data self) (st ! tfr_data tfr) of
                    Inl e \<Rightarrow> Inl e
                  | Inr d \<Rightarrow> Inr (self, st[tfr_data self := d])))"

definition binary_op ::
  "(real \<Rightarrow> real \<Rightarrow> real) \<Rightarrow> store \<Rightarrow> 'i AverageTFR \<Rightarrow> 'i AverageTFR \<Rightarrow>
   error + ('i AverageTFR \<times> store)" where
  "binary_op f st self tfr =
     (case check_compat self tfr of
        Inl e \<Rightarrow> Inl e
      | Inr _ \<Rightarrow> (case copy st self of (out, st1) \<Rightarrow>
                    (case inplace3 f (st1 ! tfr_data out) (st1 ! tfr_data tfr) of
                       Inl e \<Rightarrow> Inl e
                     | Inr d \<Rightarrow> Inr (out, st1[tfr_data out := d]))))"

text \<open>\<open>__add__\<close>, \<open>__iadd__\<close>, \<open>__sub__\<close> and \<open>__isub__\<close>.\<close>

definition tfr_add :: "store \<Rightarrow> 'i AverageTFR \<Rightarrow> 'i AverageTFR \<Rightarrow> error + ('i AverageTFR \<times> store)"
  where "tfr_add = binary_op (+)"

definition tfr_iadd :: "store \<Rightarrow> 'i AverageTFR \<Rightarrow> 'i AverageTFR \<Rightarrow> error + ('i AverageTFR \<times> store)"
  where "tfr_iadd = inplace_op (+)"

definition tfr_sub :: "store \<Rightarrow> 'i AverageTFR \<Rightarrow> 'i AverageTFR \<Rightarrow> error + ('i AverageTFR \<times> store)"
  where "tfr_sub = binary_op (-)"

definition tfr_isub :: "store \<Rightarrow> 'i AverageTFR \<Rightarrow> 'i AverageTFR \<Rightarrow> error + ('i AverageTFR \<times> store)"
  where "tfr_isub = inplace_op (-)"

text \<open>
  Example containers over the store \<open>example_store\<close>: \<open>tfr_two_freqs\<close> has the frequency
  axis \<open>[10, 10]\<close> and the data at address 0, \<open>tfr_one_freq\<close> the axis \<open>[10]\<close> and the
  data at address 1, \<open>tfr_other_time\<close> is \<open>tfr_one_freq\<close> at another time, and
  \<open>tfr_two_chans\<close> has the axes of \<open>tfr_one_freq\<close> and the two-channel data at address 2.
\<close>

definition example_store :: store where
  "example_store = [\<lparr>shape3 = (1, 2, 1), vals3 = [[[1], [2]]]\<rparr>,
                    \<lparr>shape3 = (1, 1, 1), vals3 = [[[5]]]\<rparr>,
                    \<lparr>shape3 = (2, 1, 1), vals3 = [[[1]], [[2]]]\<rparr>]"

definition tfr_two_freqs :: "unit AverageTFR" where
  "tfr_two_freqs = \<lparr>tfr_info = (), tfr_data = 0, tfr_times = [0], tfr_freqs = [10, 10],
                     tfr_nave = 1, tfr_comment = None, tfr_method = None\<rparr>"

definition tfr_one_freq :: "unit AverageTFR" where
  "tfr_one_freq = \<lparr>tfr_info = (), tfr_data = 1, tfr_times = [0], tfr_freqs = [10],
                    tfr_nave = 1, tfr_comment = None, tfr_method = None\<rparr>"

definition tfr_other_time :: "unit AverageTFR" where
  "tfr_other_time = \<lparr>tfr_info = (), tfr_data = 1, tfr_times = [1], tfr_freqs = [10],
                      tfr_nave = 1, tfr_comment = None, tfr_method = None\<rparr>"

definition tfr_two_chans :: "unit AverageTFR" where
  "tfr_two_chans = \<lparr>tfr_info = (), tfr_data = 2, tfr_times = [0], tfr_freqs = [10],
                     tfr_nave = 4, tfr_comment = None, tfr_method = None\<rparr>"

section \<open>Properties\<close>

subsection \<open>Loops that can raise\<close>

lemma mapM_err_Cons_Inr:
  "mapM_err f (x # xs) = Inr zs \<longleftrightarrow> (\<exists>y ys. f x = Inr y \<and> mapM_err f xs = Inr ys \<and> zs = y # ys)"
proof (cases "f x")
  case (Inl e)
  then show ?thesis by simp
next
  case (Inr y)
  then show ?thesis by (cases "mapM_err f xs") auto
qed



lemma mapM_err_nth:
  "mapM_err f xs = Inr ys \<Longrightarrow> i < length xs \<Longrightarrow> f (xs ! i) = Inr (ys ! i)"
proof (induction xs arbitrary: ys i)
  case Nil
  then show ?case by simp
next
  case (Cons x xs)
  then obtain y ys' where *: "f x = Inr y" "mapM_err f xs = Inr ys'" "ys = y # ys'"
    unfolding mapM_err_Cons_Inr by blast
  show ?case
  proof (cases i)
    case 0
    with * show ?thesis by simp
  next
    case (Suc k)
    with Cons.prems have "k < length xs" by simp
    with *(2) have "f (xs ! k) = Inr (ys' ! k)" by (rule Cons.IH)
    with Suc * show ?thesis by simp
  qed
qed




subsection \<open>Stockwell preprocessing\<close>

lemma ceil_log2_ge: "n \<le> 2 ^ ceil_log2 n"
proof (induction n rule: ceil_log2.induct)
  case (1 n)
  show ?case
  proof (cases "n \<le> 1")
    case True
    then show ?thesis by (simp add: ceil_log2.simps)
  next
    case False
    with 1 have "(n + 1) div 2 \<le> 2 ^ ceil_log2 ((n + 1) div 2)" by simp
    then have "n \<le> 2 * 2 ^ ceil_log2 ((n + 1) div 2)" by linarith
    with False show ?thesis by (simp add: ceil_log2.simps [of n])
  qed
qed

lemma ceil_log2_pow2: "ceil_log2 (2 ^ k) = k"
proof (induction k)
  case 0
  show ?case by (simp add: ceil_log2.simps)
next
  case (Suc k)
  have "(2 * 2 ^ k + 1) div 2 = (2::nat) ^ k" by simp
  moreover have "\<not> (2::nat) * 2 ^ k \<le> 1"
  proof -
    have "(1::nat) \<le> 2 ^ k" by simp
    then show ?thesis by linarith
  qed
  ultimately show ?case using Suc by (simp add: ceil_log2.simps [of "2 * 2 ^ k"])
qed

lemma check_input_st_pow2_None:
  assumes "snd (snd (shape3 x)) = 2 ^ k"
  shows "check_input_st x None = Inr None"
  using assms by (simp add: check_input_st_def Let_def ceil_log2_pow2)


lemma is_power_of_two_pos_times:
  assumes "n_fft < int n_times" "\<not> is_power_of_two n_fft"
  shows "n_times \<noteq> 0"
  using assms by (auto simp: is_power_of_two_def)

text \<open>
  C1. On the scenario of the specification (two trials of 256 samples, \<open>n_fft\<close> left to
  its default, \<open>fmin = 5\<close>, \<open>fmax = 15\<close>, sampled at 200 Hz) the Stockwell computation does
  not return a power array: the default FFT length is 256, the signal is not shorter, so
  \<open>_check_input_st\<close> returns \<open>None\<close> and unpacking it raises TypeError.
\<close>

theorem stockwell_sinusoid_TypeError:
  "induced_power_stockwell sinusoid_batch 200 (Some 5) (Some 15) None 1 1 False
     = Inl TypeError"
proof -
  have "snd (snd (shape3 sinusoid_batch)) = 2 ^ 8"
    by (simp add: sinusoid_batch_def)
  then have "check_input_st sinusoid_batch None = Inr None"
    by (rule check_input_st_pow2_None)
  then show ?thesis
    by (simp add: induced_power_stockwell_def sinusoid_batch_def)
qed

text \<open>
  C2, as stated, fails: a requested FFT length of 3 for a signal of 5 samples is not
  rejected; the length 8 is substituted and the padded signal is returned.
\<close>

theorem check_input_st_substitutes_counterexample:
  "(3::int) < int (snd (snd (shape3 \<lparr>shape3 = (1, 1, 5), vals3 = [[[1, 2, 3, 4, 5]]]\<rparr>))) \<and>
   check_input_st \<lparr>shape3 = (1, 1, 5), vals3 = [[[1, 2, 3, 4, 5]]]\<rparr> (Some 3)
     = Inr (Some (\<lparr>shape3 = (1, 1, 8), vals3 = [[[1, 2, 3, 4, 5, 0, 0, 0]]]\<rparr>, 8, 3))"
proof -
  have "ceil_log2 5 = 3" by code_simp
  moreover have "\<not> is_power_of_two 3" by (simp add: is_power_of_two_def)
  ultimately show ?thesis
    by (simp add: check_input_st_def pad_last_def Let_def numeral_eq_Suc)
qed

text \<open>
  C2, amended. For an explicitly requested FFT length smaller than the number of time
  samples, \<open>_check_input_st\<close> raises ValueError exactly when the length passes the
  power-of-two test of the code (a power of two, or a number that is not positive);
  any other length is treated as if no length had been requested (the next power of
  two is computed), and that does not raise ValueError.
\<close>

theorem check_input_st_small_n_fft:
  assumes "n_fft < int (snd (snd (shape3 x)))"
  shows "check_input_st x (Some n_fft)
           = (if is_power_of_two n_fft then Inl ValueError else check_input_st x None) \<and>
         (\<not> is_power_of_two n_fft \<longrightarrow> check_input_st x None \<noteq> Inl ValueError)"
proof (cases "is_power_of_two n_fft")
  case True
  with assms show ?thesis by (simp add: check_input_st_def Let_def)
next
  case False
  with assms have "snd (snd (shape3 x)) \<noteq> 0"
    by (rule is_power_of_two_pos_times)
  with False assms show ?thesis
    by (simp add: check_input_st_def Let_def)
qed

theorem check_input_st_small_n_fft_witness:
  "check_input_st \<lparr>shape3 = (1, 1, 5), vals3 = [[[1, 2, 3, 4, 5]]]\<rparr> (Some 4) = Inl ValueError \<and>
   check_input_st \<lparr>shape3 = (1, 1, 5), vals3 = [[[1, 2, 3, 4, 5]]]\<rparr> (Some 3)
     = check_input_st \<lparr>shape3 = (1, 1, 5), vals3 = [[[1, 2, 3, 4, 5]]]\<rparr> None \<and>
   check_input_st \<lparr>shape3 = (1, 1, 5), vals3 = [[[1, 2, 3, 4, 5]]]\<rparr> None \<noteq> Inl ValueError"
proof -
  have p4: "is_power_of_two 4" by (simp add: is_power_of_two_def)
  have p3: "\<not> is_power_of_two 3" by (simp add: is_power_of_two_def)
  show ?thesis
    using check_input_st_small_n_fft [of 4 "\<lparr>shape3 = (1, 1, 5), vals3 = [[[1, 2, 3, 4, 5]]]\<rparr>"]
      check_input_st_small_n_fft [of 3 "\<lparr>shape3 = (1, 1, 5), vals3 = [[[1, 2, 3, 4, 5]]]\<rparr>"]
      p4 p3
    by simp
qed

subsection \<open>Wavelet builders\<close>

lemma map2_same: "map2 h (map f xs) (map g xs) = map (\<lambda>x. h (f x) (g x)) xs"
  by (induction xs) auto

lemma sum_sq_nonneg: "0 \<le> (\<Sum>w\<leftarrow>W. (cmod w)\<^sup>2)"
  by (rule sum_list_nonneg) auto

lemma sum_list_sq_div:
  "(\<Sum>w\<leftarrow>W. (cmod (w / of_real c))\<^sup>2) = (\<Sum>w\<leftarrow>W. (cmod w)\<^sup>2) / c\<^sup>2"
  by (induction W) (auto simp: norm_divide power_divide add_divide_distrib)

lemma l2norm_nonneg: "0 \<le> l2norm W"
  by (simp add: l2norm_def sum_sq_nonneg)

lemma l2norm_normalise:
  assumes "l2norm W \<noteq> 0"
  shows "l2norm (normalise W) = sqrt 2"
proof -
  let ?n = "l2norm W"
  let ?c = "sqrt 0.5 * ?n"
  have npos: "0 < ?n" using assms l2norm_nonneg [of W] by linarith
  then have cpos: "0 < ?c" by simp
  have "(\<Sum>w\<leftarrow>normalise W. (cmod w)\<^sup>2) = (\<Sum>w\<leftarrow>W. (cmod w)\<^sup>2) / ?c\<^sup>2"
    unfolding normalise_def map_map comp_def by (rule sum_list_sq_div)
  then have "l2norm (normalise W) = sqrt ((\<Sum>w\<leftarrow>W. (cmod w)\<^sup>2) / ?c\<^sup>2)"
    by (simp only: l2norm_def)
  also have "\<dots> = ?n / ?c"
    using cpos by (simp only: real_sqrt_divide l2norm_def [symmetric] real_sqrt_abs abs_of_pos)
  also have "\<dots> = 1 / sqrt 0.5" using npos by simp
  also have "\<dots> = sqrt 2"
    by (simp add: real_sqrt_divide field_simps)
  finally show ?thesis .
qed

lemma sum_list_divide: "(\<Sum>w\<leftarrow>W. w / c) = sum_list W / (c::complex)"
  by (induction W) (auto simp: add_divide_distrib)

lemma sum_list_normalise: "sum_list (normalise W) = sum_list W / of_real (sqrt 0.5 * l2norm W)"
  unfolding normalise_def by (rule sum_list_divide)

lemma sum_list_sub_mean:
  fixes W :: "complex list"
  assumes "W \<noteq> []"
  shows "sum_list (map (\<lambda>z. z - sum_list W / of_nat (length W)) W) = 0"
proof -
  have "sum_list (map (\<lambda>z. z - c) W) = sum_list W - of_nat (length W) * c" for c :: complex
    by (induction W) (auto simp: algebra_simps)
  then show ?thesis using assms by simp
qed

lemma l2norm_Nil: "l2norm [] = 0" by (simp add: l2norm_def)

lemma sq_le_sum_sq:
  assumes "w \<in> set W"
  shows "(cmod w)\<^sup>2 \<le> (\<Sum>w\<leftarrow>W. (cmod w)\<^sup>2)"
  using assms
proof (induction W)
  case Nil then show ?case by simp
next
  case (Cons a W)
  have nn: "0 \<le> (\<Sum>w\<leftarrow>W. (cmod w)\<^sup>2)" by (rule sum_sq_nonneg)
  have na: "0 \<le> (cmod a)\<^sup>2" by simp
  show ?case
  proof (cases "w = a")
    case True
    with nn show ?thesis by simp
  next
    case False
    with Cons have "(cmod w)\<^sup>2 \<le> (\<Sum>w\<leftarrow>W. (cmod w)\<^sup>2)" by simp
    with na have "(cmod w)\<^sup>2 \<le> (cmod a)\<^sup>2 + (\<Sum>w\<leftarrow>W. (cmod w)\<^sup>2)"
      by (rule add_increasing)
    then show ?thesis by simp
  qed
qed

lemma l2norm_ge_member:
  assumes "w \<in> set W"
  shows "cmod w \<le> l2norm W"
proof -
  have "sqrt ((cmod w)\<^sup>2) \<le> l2norm W"
    unfolding l2norm_def using sq_le_sum_sq [OF assms] by (rule real_sqrt_le_mono)
  then show ?thesis by simp
qed

lemma arange0_has_zero:
  assumes "0 < stop / step"
  shows "0 \<in> set (arange0 stop step)"
proof -
  have "0 < nat \<lceil>stop / step\<rceil>" using assms by simp
  then have "0 \<in> set [0..<nat \<lceil>stop / step\<rceil>]" by simp
  then have "real 0 * step \<in> (\<lambda>i. real i * step) ` set [0..<nat \<lceil>stop / step\<rceil>]"
    by (rule imageI)
  then show ?thesis by (simp add: arange0_def)
qed

lemma morlet_raw_has_one:
  assumes "0 < sfreq" "0 < f" "0 < n"
  shows "1 \<in> set (morlet_raw sfreq f n None False)"
proof -
  let ?sg = "n / (2 * pi * f)"
  let ?ta = "arange0 (5 * ?sg) (1 / sfreq)"
  let ?t = "map uminus (rev ?ta) @ drop 1 ?ta"
  let ?k = "\<lambda>u. cis (2 * pi * f * u) * complex_of_real (exp (- u\<^sup>2 / (2 * ?sg\<^sup>2)))"
  have "0 < (5 * ?sg) / (1 / sfreq)" using assms by simp
  then have "0 \<in> set ?ta" by (rule arange0_has_zero)
  then have "- 0 \<in> uminus ` set ?ta" by (rule imageI)
  then have z: "0 \<in> set ?t" by simp
  have raw: "morlet_raw sfreq f n None False = map ?k ?t"
    by (simp add: morlet_raw_def Let_def map2_same del: map_append)
  have "?k 0 \<in> ?k ` set ?t" using z by (rule imageI)
  then have "?k 0 \<in> set (morlet_raw sfreq f n None False)"
    by (simp only: raw set_map)
  then show ?thesis by simp
qed

lemma morlet_raw_norm_pos:
  assumes "0 < sfreq" "0 < f" "0 < n"
  shows "l2norm (morlet_raw sfreq f n None False) \<noteq> 0"
  using l2norm_ge_member [OF morlet_raw_has_one [OF assms]] by simp


lemma morlet_nth:
  assumes "morlet sfreq freqs n_cycles sigma zero_mean = Inr Ws" "k < length freqs"
  shows "morlet_kernel sfreq (freqs ! k) (n_cycles_at n_cycles k) sigma zero_mean
           = Inr (Ws ! k)"
proof -
  from assms(1) have m: "mapM_err (\<lambda>k. morlet_kernel sfreq (freqs ! k) (n_cycles_at n_cycles k)
      sigma zero_mean) [0..<length freqs] = Inr Ws"
    by (simp add: morlet_def split: if_splits)
  from mapM_err_nth [OF m, of k] assms(2) show ?thesis by simp
qed

lemma morlet_kernel_Inr:
  assumes "morlet_kernel sfreq f n sigma zero_mean = Inr W"
  shows "W = normalise (morlet_raw sfreq f n sigma zero_mean)"
  using assms by (simp add: morlet_kernel_def split: if_splits)

lemma morlet_kernel_pos:
  assumes "sfreq \<noteq> 0" "f \<noteq> 0"
  shows "morlet_kernel sfreq f n None zero_mean
           = Inr (normalise (morlet_raw sfreq f n None zero_mean))"
  using assms by (simp add: morlet_kernel_def)

lemma dpss_wavelet_unfold:
  assumes "\<not> tb < 2" "\<not> (length n_cycles \<noteq> 1 \<and> length n_cycles \<noteq> length freqs)"
    "nt = nat \<lfloor>tb - 1\<rfloor>"
  shows "dpss_wavelet dpss sfreq freqs n_cycles tb zero_mean
           = mapM_err (\<lambda>m. mapM_err (\<lambda>k. dpss_kernel dpss sfreq (freqs ! k)
                                         (n_cycles_at n_cycles k) tb nt m zero_mean)
                               [0..<length freqs])
               [0..<nt]
         \<and> 0 < nt"
proof -
  have "1 \<le> \<lfloor>tb - 1\<rfloor>" using assms(1) by (simp add: le_floor_iff)
  then have "0 < nt" using assms(3) by simp
  moreover have "dpss_wavelet dpss sfreq freqs n_cycles tb zero_mean
           = mapM_err (\<lambda>m. mapM_err (\<lambda>k. dpss_kernel dpss sfreq (freqs ! k)
                                         (n_cycles_at n_cycles k) tb nt m zero_mean)
                               [0..<length freqs])
               [0..<nt]"
    unfolding assms(3) using assms(1,2) by (auto simp: dpss_wavelet_def Let_def)
  ultimately show ?thesis by simp
qed

lemma dpss_wavelet_Inr_unfold:
  assumes "dpss_wavelet dpss sfreq freqs n_cycles tb zero_mean = Inr Ws" "nt = nat \<lfloor>tb - 1\<rfloor>"
  shows "mapM_err (\<lambda>m. mapM_err (\<lambda>k. dpss_kernel dpss sfreq (freqs ! k)
                                         (n_cycles_at n_cycles k) tb nt m zero_mean)
                               [0..<length freqs])
               [0..<nt] = Inr Ws"
proof -
  have a: "\<not> tb < 2"
    using assms(1) by (auto simp: dpss_wavelet_def)
  have b: "\<not> (length n_cycles \<noteq> 1 \<and> length n_cycles \<noteq> length freqs)"
    using assms(1) a by (auto simp: dpss_wavelet_def Let_def split: if_splits)
  from dpss_wavelet_unfold [OF a b assms(2)] assms(1) show ?thesis by simp
qed

lemma dpss_wavelet_nth:
  assumes "dpss_wavelet dpss sfreq freqs n_cycles tb zero_mean = Inr Ws"
    "nt = nat \<lfloor>tb - 1\<rfloor>" "m < nt" "k < length freqs"
  shows "dpss_kernel dpss sfreq (freqs ! k) (n_cycles_at n_cycles k) tb nt m zero_mean
           = Inr (Ws ! m ! k)"
proof -
  define inner where "inner = (\<lambda>m. mapM_err (\<lambda>k. dpss_kernel dpss sfreq (freqs ! k)
      (n_cycles_at n_cycles k) tb nt m zero_mean) [0..<length freqs])"
  have o: "mapM_err inner [0..<nt] = Inr Ws"
    unfolding inner_def using assms(1,2) by (rule dpss_wavelet_Inr_unfold)
  from mapM_err_nth [OF o, of m] assms(3) have "inner m = Inr (Ws ! m)" by simp
  then have i: "mapM_err (\<lambda>k. dpss_kernel dpss sfreq (freqs ! k)
      (n_cycles_at n_cycles k) tb nt m zero_mean) [0..<length freqs] = Inr (Ws ! m)"
    by (simp add: inner_def)
  from mapM_err_nth [OF i, of k] assms(4) show ?thesis by simp
qed

lemma dpss_raw_Inr:
  assumes "dpss_raw dpss sfreq f n tb n_taps m zero_mean = Inr W"
  shows "\<exists>Wk. W = (if zero_mean then map (\<lambda>z. z - sum_list Wk / of_nat (length Wk)) Wk else Wk)"
proof -
  define osc where "osc = map (\<lambda>u. cis (2 * pi * f * (u - n / f / 2))) (arange0 (n / f) (1 / sfreq))"
  define row where "row = dpss (length (arange0 (n / f) (1 / sfreq))) (tb / 2) n_taps ! m"
  from assms have ok: "sfreq \<noteq> 0" "f \<noteq> 0"
    "\<not> length (dpss (length (arange0 (n / f) (1 / sfreq))) (tb / 2) n_taps) \<le> m"
    by (auto simp: dpss_raw_def Let_def split: if_splits)
  show ?thesis
  proof (cases "bcast_mul osc row")
    case (Inl e)
    with assms ok show ?thesis by (simp add: dpss_raw_def Let_def osc_def row_def)
  next
    case (Inr Wk)
    with assms ok have
      "W = (if zero_mean then map (\<lambda>z. z - sum_list Wk / of_nat (length Wk)) Wk else Wk)"
      by (simp add: dpss_raw_def Let_def osc_def row_def)
    then show ?thesis by blast
  qed
qed

lemma dpss_raw_zero_mean_sum:
  assumes "dpss_raw dpss sfreq f n tb n_taps m True = Inr W" "l2norm W \<noteq> 0"
  shows "sum_list W = 0"
proof -
  from dpss_raw_Inr [OF assms(1)] obtain Wk
    where W: "W = map (\<lambda>z. z - sum_list Wk / of_nat (length Wk)) Wk" by auto
  have "Wk \<noteq> []"
  proof
    assume "Wk = []"
    with W have "W = []" by simp
    with assms(2) show False by (simp add: l2norm_Nil)
  qed
  then show ?thesis unfolding W by (rule sum_list_sub_mean)
qed

text \<open>
  C3, amended. In exact arithmetic every kernel returned by the Morlet builder and by the
  multitaper builder, built from a kernel of non-zero norm, has Euclidean norm
  \<open>sqrt 2\<close> (the builders divide by \<open>sqrt(0.5) * norm\<close>), and a multitaper kernel
  built with \<open>zero_mean=True\<close> has a DC component (sum of samples) of exactly 0. Nothing
  is said of the DC component of a Morlet kernel.
\<close>

theorem kernel_norm_sqrt2:
  "(morlet sfreq freqs n_cycles sigma zero_mean = Inr Ws \<and> k < length freqs \<and>
      l2norm (morlet_raw sfreq (freqs ! k) (n_cycles_at n_cycles k) sigma zero_mean) \<noteq> 0
    \<longrightarrow> l2norm (Ws ! k) = sqrt 2) \<and>
   (dpss_wavelet dpss sfreq' freqs' n_cycles' tb zero_mean' = Inr Vs \<and>
      m < nat \<lfloor>tb - 1\<rfloor> \<and> j < length freqs' \<and>
      dpss_raw dpss sfreq' (freqs' ! j) (n_cycles_at n_cycles' j) tb
                (nat \<lfloor>tb - 1\<rfloor>) m zero_mean' = Inr Wk \<and>
      l2norm Wk \<noteq> 0
    \<longrightarrow> l2norm (Vs ! m ! j) = sqrt 2 \<and> (zero_mean' \<longrightarrow> sum_list (Vs ! m ! j) = 0))"
proof (intro conjI impI)
  assume a: "morlet sfreq freqs n_cycles sigma zero_mean = Inr Ws \<and> k < length freqs \<and>
      l2norm (morlet_raw sfreq (freqs ! k) (n_cycles_at n_cycles k) sigma zero_mean) \<noteq> 0"
  then have "morlet_kernel sfreq (freqs ! k) (n_cycles_at n_cycles k) sigma zero_mean
      = Inr (Ws ! k)"
    using morlet_nth [of sfreq freqs n_cycles sigma zero_mean Ws k] by blast
  then have "Ws ! k
      = normalise (morlet_raw sfreq (freqs ! k) (n_cycles_at n_cycles k) sigma zero_mean)"
    by (rule morlet_kernel_Inr)
  with a show "l2norm (Ws ! k) = sqrt 2"
    by (simp add: l2norm_normalise)
next
  assume b: "dpss_wavelet dpss sfreq' freqs' n_cycles' tb zero_mean' = Inr Vs \<and>
      m < nat \<lfloor>tb - 1\<rfloor> \<and> j < length freqs' \<and>
      dpss_raw dpss sfreq' (freqs' ! j) (n_cycles_at n_cycles' j) tb
                (nat \<lfloor>tb - 1\<rfloor>) m zero_mean' = Inr Wk \<and>
      l2norm Wk \<noteq> 0"
  then have "dpss_kernel dpss sfreq' (freqs' ! j) (n_cycles_at n_cycles' j) tb
      (nat \<lfloor>tb - 1\<rfloor>) m zero_mean' = Inr (Vs ! m ! j)"
    using dpss_wavelet_nth [of dpss sfreq' freqs' n_cycles' tb zero_mean' Vs
        "nat \<lfloor>tb - 1\<rfloor>" m j] by blast
  with b have v: "Vs ! m ! j = normalise Wk"
    by (auto simp: dpss_kernel_def)
  with b show "l2norm (Vs ! m ! j) = sqrt 2"
    by (simp add: l2norm_normalise)
  assume "zero_mean'"
  with b have "dpss_raw dpss sfreq' (freqs' ! j) (n_cycles_at n_cycles' j) tb
      (nat \<lfloor>tb - 1\<rfloor>) m True = Inr Wk" "l2norm Wk \<noteq> 0"
    by simp_all
  then have "sum_list Wk = 0" by (rule dpss_raw_zero_mean_sum)
  then show "sum_list (Vs ! m ! j) = 0"
    by (simp add: v sum_list_normalise)
qed

text \<open>
  An instance: the Morlet kernel for 10 Hz with 7 cycles at 1000 Hz, and the multitaper
  kernel for 1 Hz with 1 cycle at 2 Hz over constant tapers.
\<close>

lemma dpss_raw_example:
  "dpss_raw (\<lambda>N hb K. replicate K (replicate N 1)) 2 1 1 2 (Suc n) 0 True = Inr [- 1, 1]"
proof -
  have a: "arange0 1 (1 / 2) = [0, 1 / 2]"
    by (simp add: arange0_def numeral_2_eq_2)
  have c: "cis (- pi) = - 1" by (simp add: cis.ctr complex_eq_iff)
  have r: "replicate 2 (1::real) = [1, 1]" by (simp add: numeral_2_eq_2)
  have b: "bcast_mul [- 1, 1] [1, 1] = Inr [- 1, 1]" by (simp add: bcast_mul_def)
  show ?thesis
    by (simp add: dpss_raw_def Let_def a c r b)
qed

lemma l2norm_example: "l2norm [- 1, 1] = sqrt 2"
  by (simp add: l2norm_def)

theorem kernel_norm_sqrt2_witness:
  "(\<exists>W. morlet 1000 [10] [7] None False = Inr [W] \<and> l2norm W = sqrt 2) \<and>
   (\<exists>V. dpss_wavelet (\<lambda>N hb K. replicate K (replicate N 1)) 2 [1] [1] 2 True = Inr [[V]] \<and>
      l2norm V = sqrt 2 \<and> sum_list V = 0)"
proof -
  define W where "W = normalise (morlet_raw 1000 10 7 None False)"
  define V where "V = normalise [- 1, 1]"
  have m: "morlet 1000 [10] [7] None False = Inr [W]"
    by (simp add: morlet_def n_cycles_at_def morlet_kernel_pos W_def)
  have mn: "l2norm (morlet_raw 1000 ([10] ! 0) (n_cycles_at [7] 0) None False) \<noteq> 0"
    by (simp add: n_cycles_at_def morlet_raw_norm_pos)
  have d: "dpss_wavelet (\<lambda>N hb K. replicate K (replicate N 1)) 2 [1] [1] 2 True = Inr [[V]]"
    by (simp add: dpss_wavelet_def n_cycles_at_def dpss_kernel_def dpss_raw_example V_def)
  have dr: "dpss_raw (\<lambda>N hb K. replicate K (replicate N 1)) 2 ([1] ! 0) (n_cycles_at [1] 0) 2
                (nat \<lfloor>2 - 1 :: real\<rfloor>) 0 True = Inr [- 1, 1]"
    by (simp add: n_cycles_at_def dpss_raw_example)
  have dn: "l2norm [- 1, 1] \<noteq> 0" by (simp add: l2norm_example)
  have lt: "(0::nat) < nat \<lfloor>2 - 1 :: real\<rfloor>" by simp
  note inst = kernel_norm_sqrt2 [of 1000 "[10]" "[7]" None False "[W]" 0
        "\<lambda>N hb K. replicate K (replicate N 1)" 2 "[1]" "[1]" 2 True "[[V]]" 0 0 "[- 1, 1]"]
  from inst m mn have "l2norm W = sqrt 2" by simp
  moreover from inst d dr dn lt have "l2norm V = sqrt 2 \<and> sum_list V = 0" by simp
  ultimately show ?thesis using m d by blast
qed

text \<open>
  C3, as stated, fails twice. The norm of the Morlet kernel for 10 Hz with 7 cycles at
  1000 Hz is not within 1/2 of \<open>sqrt 0.5\<close> (it is \<open>sqrt 2\<close>). And the zero-mean Morlet
  kernel for 2 Hz with 1 cycle at a sample rate of 1 Hz is the single sample \<open>sqrt 2\<close>,
  whose DC component has magnitude \<open>sqrt 2\<close>, above 1: the offset that \<open>zero_mean\<close>
  subtracts does not cancel the sum of the samples.
\<close>

lemma morlet_raw_one_sample:
  "morlet_raw 1 2 1 None zero_mean = [if zero_mean then 1 - complex_of_real (exp (- (1 / 2))) else 1]"
proof -
  have "0 < 5 / (4 * pi)" by simp
  moreover have "5 / (4 * pi) \<le> 1" using pi_ge_two by simp
  ultimately have c: "\<lceil>5 / (4 * pi)\<rceil> = 1" by (simp add: ceiling_eq_iff)
  have "arange0 (5 * (1 / (2 * pi * 2))) (1 / 1) = [0]"
    by (simp add: arange0_def c)
  then show ?thesis
    by (simp add: morlet_raw_def Let_def power2_eq_square)
qed

lemma normalise_single:
  assumes "0 < x"
  shows "normalise [complex_of_real x] = [complex_of_real (sqrt 2)]"
proof -
  have "l2norm [complex_of_real x] = x" using assms by (simp add: l2norm_def)
  moreover have "x / (sqrt (1 / 2) * x) = sqrt 2"
    using assms by (simp add: real_sqrt_divide)
  ultimately show ?thesis
    by (simp add: normalise_def of_real_mult [symmetric] of_real_divide [symmetric]
        del: of_real_mult of_real_divide)
qed

lemma morlet_one_sample:
  "morlet 1 [2] [1] None zero_mean = Inr [[complex_of_real (sqrt 2)]]"
proof -
  have "exp (- (1 / 2)) < (1::real)" by simp
  then have p: "0 < 1 - exp (- (1 / 2) :: real)" by simp
  have "normalise (morlet_raw 1 2 1 None zero_mean) = [complex_of_real (sqrt 2)]"
  proof (cases zero_mean)
    case True
    have "morlet_raw 1 2 1 None True = [complex_of_real (1 - exp (- (1 / 2)))]"
      by (simp add: morlet_raw_one_sample)
    with True show ?thesis using normalise_single [OF p] by simp
  next
    case False
    have "morlet_raw 1 2 1 None False = [complex_of_real 1]"
      by (simp add: morlet_raw_one_sample)
    with False show ?thesis using normalise_single [of 1] by simp
  qed
  then show ?thesis
    by (simp add: morlet_def n_cycles_at_def morlet_kernel_pos)
qed

theorem kernel_norm_counterexample:
  "morlet 1000 [10] [7] None False = Inr [normalise (morlet_raw 1000 10 7 None False)] \<and>
   \<not> (\<bar>l2norm (normalise (morlet_raw 1000 10 7 None False)) - sqrt 0.5\<bar> < 1 / 2) \<and>
   morlet 1 [2] [1] None True = Inr [[complex_of_real (sqrt 2)]] \<and>
   cmod (sum_list [complex_of_real (sqrt 2)]) = sqrt 2 \<and>
   \<not> cmod (sum_list [complex_of_real (sqrt 2)]) < 1"
proof -
  have "l2norm (morlet_raw 1000 10 7 None False) \<noteq> 0"
    by (simp add: morlet_raw_norm_pos)
  then have n: "l2norm (normalise (morlet_raw 1000 10 7 None False)) = sqrt 2"
    by (rule l2norm_normalise)
  have "sqrt 2 - sqrt 0.5 = sqrt 0.5"
    by (simp add: real_sqrt_divide field_simps)
  moreover have "1 / 2 \<le> sqrt 0.5"
  proof -
    have "sqrt ((1 / 2)\<^sup>2) \<le> sqrt 0.5" by (rule real_sqrt_le_mono) (simp add: power2_eq_square)
    then show ?thesis by simp
  qed
  ultimately have "\<not> (\<bar>sqrt 2 - sqrt 0.5\<bar> < 1 / 2)" by simp
  then have a: "\<not> (\<bar>l2norm (normalise (morlet_raw 1000 10 7 None False)) - sqrt 0.5\<bar> < 1 / 2)"
    by (simp add: n)
  have b: "morlet 1000 [10] [7] None False = Inr [normalise (morlet_raw 1000 10 7 None False)]"
    by (simp add: morlet_def n_cycles_at_def morlet_kernel_pos)
  have c: "cmod (sum_list [complex_of_real (sqrt 2)]) = sqrt 2"
    "\<not> cmod (sum_list [complex_of_real (sqrt 2)]) < 1" by simp_all
  from a b c morlet_one_sample [of True] show ?thesis by blast
qed













subsection \<open>Convolution engines\<close>

lemma length_fft: "length (fft x) = length x"
  by (simp add: fft_def Let_def)

lemma length_ifft: "length (ifft x) = length x"
  by (simp add: ifft_def Let_def)

lemma length_fftn: "length (fftn x n) = n"
  by (simp add: fftn_def length_fft)

lemma py_index_le: "py_index n i \<le> n"
  by (auto simp: py_index_def)

lemma length_py_slice:
  "length (py_slice start stop xs) = py_index (length xs) stop - py_index (length xs) start"
  using py_index_le [of "length xs" stop] by (simp add: py_slice_def Let_def)

lemma length_centered:
  assumes "newsize \<le> length arr"
  shows "length (centered arr newsize) = newsize"
proof -
  define d where "d = (int (length arr) - int newsize) div 2"
  have d: "0 \<le> d" "d + int newsize \<le> int (length arr)"
    using assms by (auto simp: d_def)
  then have "py_index (length arr) d = nat d"
    "py_index (length arr) (d + int newsize) = nat d + newsize"
    by (auto simp: py_index_def)
  then show ?thesis
    by (simp add: centered_def Let_def length_py_slice d_def [symmetric])
qed










lemma length_py_slice0:
  assumes "0 \<le> k" "nat k \<le> length xs"
  shows "length (py_slice 0 k xs) = nat k"
  using assms by (simp add: length_py_slice py_index_def)

lemma cwt_fft_kernel_full:
  assumes "W \<noteq> []" "n_times + length W - 1 \<le> fsize" "n_times \<noteq> fsize" "n_times \<noteq> 1"
    "length fft_x = fsize"
  shows "cwt_fft_kernel n_times fsize Full fft_x W = Inl ValueError"
proof -
  define spec where "spec = ifft (map2 (*) fft_x (fftn W fsize))"
  define ret where "ret = py_slice 0 (int n_times + int (length W) - 1) spec"
  have ls: "length spec = fsize"
    by (simp add: spec_def length_ifft length_fftn assms(5))
  have pos: "1 \<le> length W" using assms(1) by (simp add: Suc_le_eq)
  then have k: "0 \<le> int n_times + int (length W) - 1"
    "nat (int n_times + int (length W) - 1) = n_times + length W - 1"
    by linarith+
  with assms(2) ls have "length ret = n_times + length W - 1"
    unfolding ret_def by (simp add: length_py_slice0)
  with pos have "n_times \<le> length ret" by linarith
  then have "length (centered ret n_times) = n_times" by (rule length_centered)
  with assms(3,4) have "assign_row fsize (centered ret n_times) = Inl ValueError"
    by (simp add: assign_row_def)
  then show ?thesis
    unfolding cwt_fft_kernel_def Let_def ret_def spec_def by simp
qed

lemma cwt_fft_trial_full:
  assumes "W \<noteq> []" "n_times + length W - 1 \<le> fsize" "n_times \<noteq> fsize" "n_times \<noteq> 1"
  shows "cwt_fft_trial n_times fsize (W # Ws) Full x = Inl ValueError"
proof -
  have "cwt_fft_kernel n_times fsize Full (fftn (map complex_of_real x) fsize) W
      = Inl ValueError"
    using assms by (rule cwt_fft_kernel_full) (rule length_fftn)
  then show ?thesis
    by (simp add: cwt_fft_trial_def Let_def)
qed

text \<open>
  C4. In mode \<open>'full'\<close> the FFT engine does not yield the uncropped convolution: for one
  signal of 3 samples and one kernel of 2 samples the row has \<open>fsize = 4\<close> entries, the
  centre crop of 3 entries is assigned to it, and the assignment raises ValueError before
  anything is yielded.
\<close>

theorem cwt_fft_full_ValueError:
  "cwt_fft \<lparr>shape2 = (1, 3), vals2 = [[1, 2, 3]]\<rparr> [[1, 1]] Full = ([], Some ValueError)"
proof -
  have c: "ceil_log2 4 = 2" by code_simp
  have "cwt_fft_trial 3 4 [[1, 1]] Full [1, 2, 3] = Inl ValueError"
    using cwt_fft_trial_full [of "[1, 1]" 3 4 "[]" "[1, 2, 3]"] by simp
  then show ?thesis
    by (simp add: cwt_fft_def Let_def c)
qed





subsection \<open>Result container\<close>

lemma np_all_eq_refl: "np_all_eq a a"
  by (simp add: np_all_eq_def)

lemma check_compat_same_axes:
  assumes "tfr_times A = tfr_times B" "tfr_freqs A = tfr_freqs B"
  shows "check_compat A B = Inr ()"
  using assms by (simp add: check_compat_def np_all_eq_refl)

lemma inplace3_same_shape:
  assumes "shape3 a = (c, n, t)" "shape3 b = (c, n, t)"
  shows "inplace3 f a b = Inr \<lparr>shape3 = (c, n, t),
      vals3 = map (\<lambda>i. map (\<lambda>j. map (\<lambda>k. f (vals3 a ! i ! j ! k) (vals3 b ! i ! j ! k))
                [0..<t]) [0..<n]) [0..<c]\<rparr>"
  using assms by (simp add: inplace3_def)

lemma wf3_rebuild:
  assumes "wf3 a" "shape3 a = (c, n, t)"
  shows "map (\<lambda>i. map (\<lambda>j. map (\<lambda>k. vals3 a ! i ! j ! k) [0..<t]) [0..<n]) [0..<c] = vals3 a"
proof -
  have len: "length (vals3 a) = c"
    and rows: "\<And>m. m \<in> set (vals3 a) \<Longrightarrow> length m = n \<and> (\<forall>r\<in>set m. length r = t)"
    using assms by (auto simp: wf3_def list_all_iff)
  show ?thesis
  proof (rule nth_equalityI)
    show "length (map (\<lambda>i. map (\<lambda>j. map (\<lambda>k. vals3 a ! i ! j ! k) [0..<t]) [0..<n]) [0..<c])
        = length (vals3 a)"
      by (simp add: len)
  next
    fix i
    assume "i < length (map (\<lambda>i. map (\<lambda>j. map (\<lambda>k. vals3 a ! i ! j ! k) [0..<t]) [0..<n]) [0..<c])"
    then have i: "i < c" by simp
    then have mi: "vals3 a ! i \<in> set (vals3 a)" by (simp add: len)
    have "map (\<lambda>j. map (\<lambda>k. vals3 a ! i ! j ! k) [0..<t]) [0..<n] = vals3 a ! i"
    proof (rule nth_equalityI)
      show "length (map (\<lambda>j. map (\<lambda>k. vals3 a ! i ! j ! k) [0..<t]) [0..<n]) = length (vals3 a ! i)"
        using rows [OF mi] by simp
    next
      fix j
      assume "j < length (map (\<lambda>j. map (\<lambda>k. vals3 a ! i ! j ! k) [0..<t]) [0..<n])"
      then have j: "j < n" by simp
      then have "vals3 a ! i ! j \<in> set (vals3 a ! i)" using rows [OF mi] by simp
      then have "length (vals3 a ! i ! j) = t" using rows [OF mi] by blast
      then have "map (\<lambda>k. vals3 a ! i ! j ! k) [0..<t] = vals3 a ! i ! j"
        by (metis map_nth)
      with j show "map (\<lambda>j. map (\<lambda>k. vals3 a ! i ! j ! k) [0..<t]) [0..<n] ! j = vals3 a ! i ! j"
        by simp
    qed
    with i show "map (\<lambda>i. map (\<lambda>j. map (\<lambda>k. vals3 a ! i ! j ! k) [0..<t]) [0..<n]) [0..<c] ! i
        = vals3 a ! i"
      by simp
  qed
qed

lemma binary_op_same_shape:
  assumes "tfr_data A < length st" "tfr_data B < length st"
    "tfr_times A = tfr_times B" "tfr_freqs A = tfr_freqs B"
    "shape3 (st ! tfr_data A) = (c, n, t)" "shape3 (st ! tfr_data B) = (c, n, t)"
  shows "binary_op f st A B = Inr (A\<lparr>tfr_data := length st\<rparr>,
      st @ [\<lparr>shape3 = (c, n, t),
             vals3 = map (\<lambda>i. map (\<lambda>j. map (\<lambda>k.
                 f (vals3 (st ! tfr_data A) ! i ! j ! k) (vals3 (st ! tfr_data B) ! i ! j ! k))
                [0..<t]) [0..<n]) [0..<c]\<rparr>])"
  using assms
  by (simp add: binary_op_def check_compat_same_axes copy_def nth_append inplace3_same_shape)


lemma add_then_sub_vals:
  "map (\<lambda>i. map (\<lambda>j. map (\<lambda>k.
      (map (\<lambda>i. map (\<lambda>j. map (\<lambda>k. (a i j k :: real) + b i j k) [0..<t]) [0..<n]) [0..<c]) ! i ! j ! k
        - b i j k) [0..<t]) [0..<n]) [0..<c]
   = map (\<lambda>i. map (\<lambda>j. map (\<lambda>k. a i j k) [0..<t]) [0..<n]) [0..<c]"
  by (simp cong: map_cong)

text \<open>
  The parts of the arithmetic that hold. For two containers with identical time and
  frequency axes and data of the same shape, \<open>(A + B) - B\<close> has the data of \<open>A\<close> (in
  exact arithmetic), and \<open>+\<close> and \<open>-\<close> leave the data arrays of both operands as they
  were. If the time axes or the frequency axes have the same length and differ in an
  entry, \<open>A + B\<close> and \<open>A - B\<close> fail with AssertionError.
\<close>

theorem add_sub_roundtrip:
  "(tfr_data A < length st \<and> tfr_data B < length st \<and>
    wf3 (st ! tfr_data A) \<and> wf3 (st ! tfr_data B) \<and>
    tfr_times A = tfr_times B \<and> tfr_freqs A = tfr_freqs B \<and>
    shape3 (st ! tfr_data A) = shape3 (st ! tfr_data B) \<longrightarrow>
    (\<exists>S st1 D st2. tfr_add st A B = Inr (S, st1) \<and> tfr_sub st1 S B = Inr (D, st2) \<and>
       vals3 (st2 ! tfr_data D) = vals3 (st ! tfr_data A) \<and>
       st1 ! tfr_data A = st ! tfr_data A \<and> st1 ! tfr_data B = st ! tfr_data B \<and>
       st2 ! tfr_data A = st ! tfr_data A \<and> st2 ! tfr_data B = st ! tfr_data B)) \<and>
   ((tfr_times A \<noteq> tfr_times B \<and> length (tfr_times A) = length (tfr_times B)) \<or>
    (tfr_freqs A \<noteq> tfr_freqs B \<and> length (tfr_freqs A) = length (tfr_freqs B)) \<longrightarrow>
    tfr_add st A B = Inl AssertionError \<and> tfr_sub st A B = Inl AssertionError)"
proof (intro conjI impI)
  assume h: "tfr_data A < length st \<and> tfr_data B < length st \<and>
    wf3 (st ! tfr_data A) \<and> wf3 (st ! tfr_data B) \<and>
    tfr_times A = tfr_times B \<and> tfr_freqs A = tfr_freqs B \<and>
    shape3 (st ! tfr_data A) = shape3 (st ! tfr_data B)"
  obtain c n t where sa: "shape3 (st ! tfr_data A) = (c, n, t)"
    by (cases "shape3 (st ! tfr_data A)") auto
  with h have sb: "shape3 (st ! tfr_data B) = (c, n, t)" by simp
  define a where "a = st ! tfr_data A"
  define b where "b = st ! tfr_data B"
  define S where "S = A\<lparr>tfr_data := length st\<rparr>"
  define sm where "sm = \<lparr>shape3 = (c, n, t),
      vals3 = map (\<lambda>i. map (\<lambda>j. map (\<lambda>k. vals3 a ! i ! j ! k + vals3 b ! i ! j ! k)
                [0..<t]) [0..<n]) [0..<c]\<rparr>"
  define st1 where "st1 = st @ [sm]"
  define D where "D = S\<lparr>tfr_data := length st1\<rparr>"
  define df where "df = \<lparr>shape3 = (c, n, t),
      vals3 = map (\<lambda>i. map (\<lambda>j. map (\<lambda>k. vals3 sm ! i ! j ! k - vals3 b ! i ! j ! k)
                [0..<t]) [0..<n]) [0..<c]\<rparr>"
  define st2 where "st2 = st1 @ [df]"
  have add: "tfr_add st A B = Inr (S, st1)"
    using h sa sb
    by (simp add: tfr_add_def binary_op_same_shape [of A st B c n t] S_def st1_def sm_def
        a_def b_def)
  have s1: "st1 ! tfr_data S = sm" "st1 ! tfr_data B = b" "st1 ! tfr_data A = a"
    using h by (simp_all add: st1_def S_def nth_append a_def b_def)
  have "tfr_data S < length st1" "tfr_data B < length st1"
    using h by (simp_all add: S_def st1_def)
  moreover have "tfr_times S = tfr_times B" "tfr_freqs S = tfr_freqs B"
    using h by (simp_all add: S_def)
  moreover have "shape3 (st1 ! tfr_data S) = (c, n, t)" "shape3 (st1 ! tfr_data B) = (c, n, t)"
    using sb by (simp_all add: s1 sm_def b_def)
  ultimately have sub: "tfr_sub st1 S B = Inr (D, st2)"
    unfolding tfr_sub_def D_def st2_def df_def
    by (simp add: binary_op_same_shape [of S st1 B c n t] s1)
  have "vals3 df = map (\<lambda>i. map (\<lambda>j. map (\<lambda>k. vals3 a ! i ! j ! k) [0..<t]) [0..<n]) [0..<c]"
    unfolding df_def sm_def by (simp add: add_then_sub_vals)
  also have "\<dots> = vals3 a"
    using h sa unfolding a_def by (intro wf3_rebuild) auto
  finally have v: "vals3 (st2 ! tfr_data D) = vals3 (st ! tfr_data A)"
    by (simp add: st2_def D_def a_def)
  have s2: "st2 ! tfr_data A = a" "st2 ! tfr_data B = b"
    using h by (simp_all add: st2_def st1_def nth_append a_def b_def)
  show "\<exists>S st1 D st2. tfr_add st A B = Inr (S, st1) \<and> tfr_sub st1 S B = Inr (D, st2) \<and>
       vals3 (st2 ! tfr_data D) = vals3 (st ! tfr_data A) \<and>
       st1 ! tfr_data A = st ! tfr_data A \<and> st1 ! tfr_data B = st ! tfr_data B \<and>
       st2 ! tfr_data A = st ! tfr_data A \<and> st2 ! tfr_data B = st ! tfr_data B"
    using add sub v s1 s2 unfolding a_def b_def by blast
next
  assume m: "(tfr_times A \<noteq> tfr_times B \<and> length (tfr_times A) = length (tfr_times B)) \<or>
    (tfr_freqs A \<noteq> tfr_freqs B \<and> length (tfr_freqs A) = length (tfr_freqs B))"
  then have "\<not> np_all_eq (tfr_times B) (tfr_times A) \<or> \<not> np_all_eq (tfr_freqs B) (tfr_freqs A)"
    by (auto simp: np_all_eq_def)
  then have c: "check_compat A B = Inl AssertionError"
    by (auto simp: check_compat_def)
  then show "tfr_add st A B = Inl AssertionError"
    by (simp add: tfr_add_def binary_op_def)
  from c show "tfr_sub st A B = Inl AssertionError"
    by (simp add: tfr_sub_def binary_op_def)
qed


text \<open>An instance of each half: a container with itself, and two containers at different times.\<close>

theorem add_sub_roundtrip_witness:
  "(\<exists>S st1 D st2. tfr_add example_store tfr_one_freq tfr_one_freq = Inr (S, st1) \<and>
      tfr_sub st1 S tfr_one_freq = Inr (D, st2) \<and>
      vals3 (st2 ! tfr_data D) = [[[5]]] \<and> st1 ! 1 = example_store ! 1 \<and>
      st2 ! 1 = example_store ! 1) \<and>
   tfr_add example_store tfr_one_freq tfr_other_time = Inl AssertionError \<and>
   tfr_sub example_store tfr_one_freq tfr_other_time = Inl AssertionError"
proof -
  have "tfr_data tfr_one_freq < length example_store \<and>
    wf3 (example_store ! tfr_data tfr_one_freq)"
    by (simp add: tfr_one_freq_def example_store_def wf3_def)
  moreover have "tfr_times tfr_one_freq \<noteq> tfr_times tfr_other_time \<and>
    length (tfr_times tfr_one_freq) = length (tfr_times tfr_other_time)"
    by (simp add: tfr_one_freq_def tfr_other_time_def)
  moreover have "vals3 (example_store ! tfr_data tfr_one_freq) = [[[5]]]"
    "tfr_data tfr_one_freq = 1"
    by (simp_all add: tfr_one_freq_def example_store_def)
  ultimately show ?thesis
    using add_sub_roundtrip [of tfr_one_freq example_store tfr_one_freq]
      add_sub_roundtrip [of tfr_one_freq example_store tfr_other_time]
    by simp
qed

text \<open>
  C9. \<open>_check_compat\<close> is there to check that the two containers have the same time and
  frequency ranges, and C9 says that the combination fails with an assertion error if
  the axes differ. The check misses axes of different lengths: for the frequency axes
  \<open>[10, 10]\<close> and \<open>[10]\<close> the comparison \<open>tfr.freqs == self.freqs\<close> broadcasts the axis of
  one entry, \<open>np.all\<close> of it is true, no AssertionError is raised, and \<open>A + B\<close> returns
  the data of \<open>A\<close> with the single frequency row of \<open>B\<close> added to both rows.
\<close>

theorem add_broadcast_axes_no_AssertionError:
  "tfr_times tfr_two_freqs = [0] \<and> tfr_freqs tfr_two_freqs = [10, 10] \<and>
   example_store ! tfr_data tfr_two_freqs = \<lparr>shape3 = (1, 2, 1), vals3 = [[[1], [2]]]\<rparr> \<and>
   tfr_times tfr_one_freq = [0] \<and> tfr_freqs tfr_one_freq = [10] \<and>
   example_store ! tfr_data tfr_one_freq = \<lparr>shape3 = (1, 1, 1), vals3 = [[[5]]]\<rparr> \<and>
   tfr_freqs tfr_two_freqs \<noteq> tfr_freqs tfr_one_freq \<and>
   check_compat tfr_two_freqs tfr_one_freq = Inr () \<and>
   tfr_add example_store tfr_two_freqs tfr_one_freq
     = Inr (tfr_two_freqs\<lparr>tfr_data := 3\<rparr>,
            example_store @ [\<lparr>shape3 = (1, 2, 1), vals3 = [[[6], [7]]]\<rparr>])"
  by (simp add: tfr_add_def binary_op_def check_compat_def np_all_eq_def copy_def inplace3_def
      tfr_two_freqs_def tfr_one_freq_def example_store_def upt_rec numeral_eq_Suc)

text \<open>
  C10. The compatibility check looks at the time and frequency axes only: it passes for
  any two containers with identical axes, whatever their channel counts; and if \<open>B\<close> has
  one channel, \<open>A + B\<close> returns a container with the trial count of \<open>A\<close> whose data is the
  data of \<open>A\<close> plus, in every channel, the single channel of \<open>B\<close>.
\<close>

theorem single_channel_broadcast:
  "(tfr_times A = tfr_times B \<and> tfr_freqs A = tfr_freqs B \<longrightarrow> check_compat A B = Inr ()) \<and>
   (tfr_times A = tfr_times B \<and> tfr_freqs A = tfr_freqs B \<and>
    tfr_data A < length st \<and> tfr_data B < length st \<and>
    shape3 (st ! tfr_data A) = (c, n, t) \<and> shape3 (st ! tfr_data B) = (1, n, t) \<longrightarrow>
    (\<exists>out st'. tfr_add st A B = Inr (out, st') \<and> tfr_nave out = tfr_nave A \<and>
       shape3 (st' ! tfr_data out) = (c, n, t) \<and>
       (\<forall>i<c. \<forall>j<n. \<forall>k<t.
          vals3 (st' ! tfr_data out) ! i ! j ! k
            = vals3 (st ! tfr_data A) ! i ! j ! k + vals3 (st ! tfr_data B) ! 0 ! j ! k)))"
proof (intro conjI impI)
  assume "tfr_times A = tfr_times B \<and> tfr_freqs A = tfr_freqs B"
  then show "check_compat A B = Inr ()" by (simp add: check_compat_same_axes)
next
  assume h: "tfr_times A = tfr_times B \<and> tfr_freqs A = tfr_freqs B \<and>
    tfr_data A < length st \<and> tfr_data B < length st \<and>
    shape3 (st ! tfr_data A) = (c, n, t) \<and> shape3 (st ! tfr_data B) = (1, n, t)"
  define a where "a = st ! tfr_data A"
  define b where "b = st ! tfr_data B"
  define d where "d = \<lparr>shape3 = (c, n, t),
      vals3 = map (\<lambda>i. map (\<lambda>j. map (\<lambda>k.
                 vals3 a ! i ! j ! k
                   + vals3 b ! 0 ! (if n = 1 then 0 else j) ! (if t = 1 then 0 else k))
                [0..<t]) [0..<n]) [0..<c]\<rparr>"
  have sh: "shape3 a = (c, n, t)" "shape3 b = (1, n, t)"
    using h by (simp_all add: a_def b_def)
  have ip: "inplace3 (+) a b = Inr d"
    using sh by (simp add: inplace3_def d_def)
  have add: "tfr_add st A B = Inr (A\<lparr>tfr_data := length st\<rparr>, st @ [d])"
    using h ip
    by (simp add: tfr_add_def binary_op_def check_compat_same_axes copy_def nth_append
        a_def b_def)
  have "vals3 d ! i ! j ! k = vals3 a ! i ! j ! k + vals3 b ! 0 ! j ! k"
    if "i < c" "j < n" "k < t" for i j k
  proof -
    have "vals3 d ! i ! j ! k = vals3 a ! i ! j ! k
        + vals3 b ! 0 ! (if n = 1 then 0 else j) ! (if t = 1 then 0 else k)"
      using that by (simp add: d_def)
    moreover have "(if n = 1 then 0 else j) = j" "(if t = 1 then 0 else k) = k"
      using that by auto
    ultimately show ?thesis by (simp only:)
  qed
  then show "\<exists>out st'. tfr_add st A B = Inr (out, st') \<and> tfr_nave out = tfr_nave A \<and>
       shape3 (st' ! tfr_data out) = (c, n, t) \<and>
       (\<forall>i<c. \<forall>j<n. \<forall>k<t.
          vals3 (st' ! tfr_data out) ! i ! j ! k
            = vals3 (st ! tfr_data A) ! i ! j ! k + vals3 (st ! tfr_data B) ! 0 ! j ! k)"
    using add by (simp add: d_def a_def b_def)
qed

theorem single_channel_broadcast_witness:
  "check_compat tfr_two_chans tfr_one_freq = Inr () \<and>
   (\<exists>out st'. tfr_add example_store tfr_two_chans tfr_one_freq = Inr (out, st') \<and>
      tfr_nave out = 4 \<and> shape3 (st' ! tfr_data out) = (2, 1, 1) \<and>
      vals3 (st' ! tfr_data out) ! 0 ! 0 ! 0 = 6 \<and>
      vals3 (st' ! tfr_data out) ! 1 ! 0 ! 0 = 7)"
proof -
  have h: "tfr_times tfr_two_chans = tfr_times tfr_one_freq \<and>
    tfr_freqs tfr_two_chans = tfr_freqs tfr_one_freq \<and>
    tfr_data tfr_two_chans < length example_store \<and>
    tfr_data tfr_one_freq < length example_store \<and>
    shape3 (example_store ! tfr_data tfr_two_chans) = (2, 1, 1) \<and>
    shape3 (example_store ! tfr_data tfr_one_freq) = (1, 1, 1)"
    by (simp add: tfr_one_freq_def tfr_two_chans_def example_store_def)
  have cc: "check_compat tfr_two_chans tfr_one_freq = Inr ()"
    using single_channel_broadcast [of tfr_two_chans tfr_one_freq example_store 2 1 1] h
    by blast
  obtain out st' where o: "tfr_add example_store tfr_two_chans tfr_one_freq = Inr (out, st')"
    "tfr_nave out = tfr_nave tfr_two_chans" "shape3 (st' ! tfr_data out) = (2, 1, 1)"
    and v: "\<forall>i<2. \<forall>j<1. \<forall>k<1. vals3 (st' ! tfr_data out) ! i ! j ! k
      = vals3 (example_store ! tfr_data tfr_two_chans) ! i ! j ! k
        + vals3 (example_store ! tfr_data tfr_one_freq) ! 0 ! j ! k"
    using single_channel_broadcast [of tfr_two_chans tfr_one_freq example_store 2 1 1] h
    by blast
  from v have "vals3 (st' ! tfr_data out) ! 0 ! 0 ! 0
      = vals3 (example_store ! tfr_data tfr_two_chans) ! 0 ! 0 ! 0
        + vals3 (example_store ! tfr_data tfr_one_freq) ! 0 ! 0 ! 0"
    by simp
  then have v0: "vals3 (st' ! tfr_data out) ! 0 ! 0 ! 0 = 6"
    by (simp add: tfr_one_freq_def tfr_two_chans_def example_store_def)
  from v have "vals3 (st' ! tfr_data out) ! 1 ! 0 ! 0
      = vals3 (example_store ! tfr_data tfr_two_chans) ! 1 ! 0 ! 0
        + vals3 (example_store ! tfr_data tfr_one_freq) ! 0 ! 0 ! 0"
    by simp
  then have v1: "vals3 (st' ! tfr_data out) ! 1 ! 0 ! 0 = 7"
    by (simp add: tfr_one_freq_def tfr_two_chans_def example_store_def)
  have "tfr_nave out = 4" using o(2) by (simp add: tfr_two_chans_def)
  with cc o v0 v1 show ?thesis by blast
qed

subsection \<open>Reduction\<close>



































subsection \<open>Orchestration\<close>


















end
